theory Spec2Isabelle
  imports Complex_Main
begin

section \<open>FreshShare authentication middleware (src/middleware/authJwt.js)\<close>

text \<open>
  A shallow embedding of the functions of \<^verbatim>\<open>authJwt.js\<close>: the resolver
  \<^verbatim>\<open>decodeToken\<close>, the renewal policy \<^verbatim>\<open>renewTokenIfNecessary\<close>, the global
  middleware \<^verbatim>\<open>addUserToRequestAndLocals\<close> and the two guards \<^verbatim>\<open>requireAuthForPage\<close>
  and \<^verbatim>\<open>requireAuthForApi\<close>.

  JavaScript strings are modelled as \<open>string\<close> (the UTF-8 bytes of the text), \<^verbatim>\<open>undefined\<close>
  and \<^verbatim>\<open>null\<close> as \<open>None\<close>. Every middleware returns the request and the response as it leaves
  them, together with the number of times it has invoked \<^verbatim>\<open>next()\<close>.
\<close>

subsection \<open>Data\<close>

text \<open>
  A user document of the store: its \<^verbatim>\<open>_id\<close> and its remaining fields by name. The schema of
  the user model is not part of the middleware; the only field the middleware names is
  \<^verbatim>\<open>password\<close>.
\<close>

record user_record =
  user_oid :: string
  user_fields :: "string \<rightharpoonup> string"

text \<open>
  The decoded payload of a credential, a JSON object: the members \<^verbatim>\<open>id\<close>, \<^verbatim>\<open>iat\<close> and
  \<^verbatim>\<open>exp\<close> (NumericDate, whole seconds since the epoch), each possibly absent, and whatever
  other members the object has, by name.
\<close>

record payload =
  jwt_id :: "string option"
  jwt_iat :: "int option"
  jwt_exp :: "int option"
  jwt_other :: "(string \<times> string) list"

record request =
  cookies :: "(string \<rightharpoonup> string) option"
  headers :: "string \<rightharpoonup> string"
  originalUrl :: string
  user :: "user_record option"
  userId :: "string option"

record api_body =
  success :: bool
  message :: string

record cookie =
  cookie_name :: string
  cookie_value :: string
  httpOnly :: bool
  secure :: bool
  maxAge :: nat
  sameSite :: string
  cookie_path :: string

record response =
  statusCode :: nat
  body :: "api_body option"
  location :: "string option"
  setCookies :: "cookie list"
  locals_user :: "user_record option"

datatype jwt_error = JsonWebTokenError | TokenExpiredError

datatype store_fault = StoreFault

text \<open>
  The environment of one middleware invocation: everything the code reads that is not an
  argument.
  \<^item> \<open>parse_jwt\<close> and \<open>encode_jwt\<close> stand for the wire format and the signature scheme of the
    \<^verbatim>\<open>jsonwebtoken\<close> library under \<^verbatim>\<open>JWT_SECRET\<close>: \<open>parse_jwt tok\<close> is \<open>None\<close> for a
    malformed token and otherwise the payload together with whether the signature matches
    the secret; \<open>encode_jwt\<close> serialises and signs a payload.
  \<^item> \<open>findById\<close> is \<^verbatim>\<open>User.findById\<close>: a fault (the promise rejects), no document
    (\<^verbatim>\<open>null\<close>) or the stored document.
  \<^item> \<open>production\<close> is \<^verbatim>\<open>process.env.NODE_ENV === 'production'\<close>.
  \<^item> \<open>clock_verify\<close>, \<open>clock_renew\<close> and \<open>clock_sign\<close> are the readings of \<^verbatim>\<open>Date.now()\<close>
    (milliseconds since the epoch) taken inside \<^verbatim>\<open>jwt.verify\<close>, at the top of
    \<^verbatim>\<open>renewTokenIfNecessary\<close> and inside \<^verbatim>\<open>jwt.sign\<close>.
\<close>

record env =
  parse_jwt :: "string \<Rightarrow> (payload \<times> bool) option"
  encode_jwt :: "payload \<Rightarrow> string"
  findById :: "string \<Rightarrow> store_fault + user_record option"
  production :: bool
  clock_verify :: nat
  clock_renew :: nat
  clock_sign :: nat

subsection \<open>Library operations the middleware calls\<close>

text \<open>
  Modelled from the spec: the token codec (section 4.1), which the repository takes from the
  \<^verbatim>\<open>jsonwebtoken\<close> library. \<^verbatim>\<open>jwt.verify(token, JWT_SECRET)\<close> throws when the token is
  malformed, when its signature is invalid, or when its expiry has passed (the clock, in
  whole seconds, has reached \<^verbatim>\<open>exp\<close>); otherwise it returns the payload.
\<close>

definition jwt_verify :: "env \<Rightarrow> string \<Rightarrow> jwt_error + payload" where
  "jwt_verify e tok =
     (case parse_jwt e tok of
        None \<Rightarrow> Inl JsonWebTokenError
      | Some (p, sig_ok) \<Rightarrow>
          if \<not> sig_ok then Inl JsonWebTokenError
          else (case jwt_exp p of
                  None \<Rightarrow> Inr p
                | Some x \<Rightarrow>
                    if x \<le> int (clock_verify e div 1000) then Inl TokenExpiredError
                    else Inr p))"

text \<open>
  Modelled from the spec: \<^verbatim>\<open>jwt.sign({ id }, JWT_SECRET, { expiresIn: '7d' })\<close> issues a
  credential for the subject with issued-at the current second and expiry seven days later;
  the payload it signs is the object it is given, with these two members added.
\<close>

definition jwt_sign :: "env \<Rightarrow> string option \<Rightarrow> string" where
  "jwt_sign e i =
     (let iat = int (clock_sign e div 1000)
      in encode_jwt e \<lparr>jwt_id = i, jwt_iat = Some iat, jwt_exp = Some (iat + 7 * 24 * 60 * 60), jwt_other = []\<rparr>)"

text \<open>Mongoose's \<^verbatim>\<open>query.select('-password')\<close>: the document without its password field.\<close>

definition select_minus_password :: "user_record \<Rightarrow> user_record" where
  "select_minus_password u = u\<lparr>user_fields := (user_fields u)(''password'' := None)\<rparr>"

text \<open>Express: \<^verbatim>\<open>res.status\<close>, \<^verbatim>\<open>res.json\<close>, \<^verbatim>\<open>res.cookie\<close> and \<^verbatim>\<open>res.redirect\<close>
  (whose status, when none is given, is 302).\<close>

definition status :: "nat \<Rightarrow> response \<Rightarrow> response" where
  "status n res = res\<lparr>statusCode := n\<rparr>"

definition json :: "api_body \<Rightarrow> response \<Rightarrow> response" where
  "json b res = res\<lparr>body := Some b\<rparr>"

definition set_cookie :: "cookie \<Rightarrow> response \<Rightarrow> response" where
  "set_cookie c res = res\<lparr>setCookies := setCookies res @ [c]\<rparr>"

definition redirect :: "string \<Rightarrow> response \<Rightarrow> response" where
  "redirect url res = res\<lparr>statusCode := 302, location := Some url\<rparr>"

text \<open>
  \<^verbatim>\<open>encodeURIComponent\<close>: every byte of the UTF-8 text other than the unreserved marks
  \<^verbatim>\<open>A-Z a-z 0-9 - _ . ! ~ * ' ( )\<close> becomes \<^verbatim>\<open>%XX\<close> with two upper-case hexadecimal digits.
\<close>

definition uriUnreserved :: "char \<Rightarrow> bool" where
  "uriUnreserved c =
     (c \<in> set (''ABCDEFGHIJKLMNOPQRSTUVWXYZabcdefghijklmnopqrstuvwxyz0123456789-_.!~*()''
               @ [CHR 0x27]))"

definition hexDigit :: "nat \<Rightarrow> char" where
  "hexDigit n = ''0123456789ABCDEF'' ! (n mod 16)"

definition pctEncode :: "char \<Rightarrow> string" where
  "pctEncode c = [CHR ''%'', hexDigit (of_char c div 16), hexDigit (of_char c mod 16)]"

definition encodeURIComponent :: "string \<Rightarrow> string" where
  "encodeURIComponent s = concat (map (\<lambda>c. if uriUnreserved c then [c] else pctEncode c) s)"

text \<open>\<^verbatim>\<open>String.prototype.startsWith\<close> and \<^verbatim>\<open>substring\<close> with one argument.\<close>

definition startsWith :: "string \<Rightarrow> string \<Rightarrow> bool" where
  "startsWith s p = (take (length p) s = p)"

definition substring :: "string \<Rightarrow> nat \<Rightarrow> string" where
  "substring s n = drop n s"

subsection \<open>The middleware\<close>

text \<open>
  \<^verbatim>\<open>decodeToken\<close>: the cookie is preferred when \<^verbatim>\<open>req.cookies && req.cookies.token\<close> is
  truthy (present and not the empty string), else the remainder of a \<^verbatim>\<open>Bearer\<close> header;
  a falsy token gives \<^verbatim>\<open>null\<close>, and so does every error that \<^verbatim>\<open>jwt.verify\<close> throws.
\<close>

definition cookie_token :: "request \<Rightarrow> string option" where
  "cookie_token req =
     (case cookies req of
        None \<Rightarrow> None
      | Some cs \<Rightarrow> (case cs ''token'' of
                     None \<Rightarrow> None
                   | Some t \<Rightarrow> if t = [] then None else Some t))"

definition bearer_token :: "request \<Rightarrow> string option" where
  "bearer_token req =
     (case headers req ''authorization'' of
        None \<Rightarrow> None
      | Some h \<Rightarrow> if h \<noteq> [] \<and> startsWith h ''Bearer '' then Some (substring h 7) else None)"

definition decodeToken :: "env \<Rightarrow> request \<Rightarrow> payload option" where
  "decodeToken e req =
     (let token = (case cookie_token req of
                     Some t \<Rightarrow> Some t
                   | None \<Rightarrow> bearer_token req)
      in case token of
           None \<Rightarrow> None
         | Some t \<Rightarrow>
             if t = [] then None
             else (case jwt_verify e t of
                     Inl err \<Rightarrow> None
                   | Inr decoded \<Rightarrow> Some decoded))"

text \<open>
  \<^verbatim>\<open>renewTokenIfNecessary\<close>. \<^verbatim>\<open>decoded.exp && ...\<close> is falsy for an absent expiry and for
  the number 0. The subtraction and the comparison are those of the source, in exact
  arithmetic.
\<close>

definition token_cookie :: "env \<Rightarrow> string \<Rightarrow> cookie" where
  "token_cookie e newToken =
     \<lparr>cookie_name = ''token'', cookie_value = newToken, httpOnly = True,
      secure = production e, maxAge = 7 * 24 * 60 * 60 * 1000,
      sameSite = ''lax'', cookie_path = ''/''\<rparr>"

definition renewTokenIfNecessary :: "env \<Rightarrow> response \<Rightarrow> payload \<Rightarrow> response" where
  "renewTokenIfNecessary e res decoded =
     (let nowInSeconds = (of_nat (clock_renew e) :: rat) / 1000;
          oneDayInSeconds = 24 * 60 * 60
      in case jwt_exp decoded of
           None \<Rightarrow> res
         | Some x \<Rightarrow>
             if x \<noteq> 0 \<and> of_int x - nowInSeconds < oneDayInSeconds
             then set_cookie (token_cookie e (jwt_sign e (jwt_id decoded))) res
             else res)"

text \<open>
  \<^verbatim>\<open>addUserToRequestAndLocals\<close>. \<^verbatim>\<open>decoded && decoded.id\<close> is truthy for a payload whose
  \<^verbatim>\<open>id\<close> is present and not empty. A fault of the lookup is caught and logged.
\<close>

definition addUserToRequestAndLocals :: "env \<Rightarrow> request \<Rightarrow> response \<Rightarrow> request \<times> response \<times> nat" where
  "addUserToRequestAndLocals e req res =
     (case decodeToken e req of
        None \<Rightarrow> (req, res, 1)
      | Some decoded \<Rightarrow>
          (case jwt_id decoded of
             None \<Rightarrow> (req, res, 1)
           | Some i \<Rightarrow>
               if i = [] then (req, res, 1)
               else (case findById e i of
                       Inl fault \<Rightarrow> (req, res, 1)
                     | Inr None \<Rightarrow> (req, res, 1)
                     | Inr (Some u) \<Rightarrow>
                         (let user = select_minus_password u
                          in (req\<lparr>user := Some user\<rparr>,
                              renewTokenIfNecessary e (res\<lparr>locals_user := Some user\<rparr>) decoded,
                              1)))))"

text \<open>\<^verbatim>\<open>requireAuthForPage\<close>.\<close>

definition requireAuthForPage :: "request \<Rightarrow> response \<Rightarrow> request \<times> response \<times> nat" where
  "requireAuthForPage req res =
     (case user req of
        Some u \<Rightarrow> (req, res, 1)
      | None \<Rightarrow>
          (req,
           redirect (''/login?redirect='' @ encodeURIComponent (originalUrl req)
                     @ ''&error=Please+log+in+to+view+this+page'') res,
           0))"

text \<open>\<^verbatim>\<open>requireAuthForApi\<close>.\<close>

definition auth_failed :: api_body where
  "auth_failed = \<lparr>success = False, message = ''Authentication failed. No token provided.''\<rparr>"

definition user_not_found :: api_body where
  "user_not_found = \<lparr>success = False, message = ''Unauthorized. User not found.''\<rparr>"

definition server_error :: api_body where
  "server_error = \<lparr>success = False, message = ''Server error during API authentication.''\<rparr>"

definition requireAuthForApi :: "env \<Rightarrow> request \<Rightarrow> response \<Rightarrow> request \<times> response \<times> nat" where
  "requireAuthForApi e req res =
     (case decodeToken e req of
        None \<Rightarrow> (req, json auth_failed (status 403 res), 0)
      | Some decoded \<Rightarrow>
          (case jwt_id decoded of
             None \<Rightarrow> (req, json auth_failed (status 403 res), 0)
           | Some i \<Rightarrow>
               if i = [] then (req, json auth_failed (status 403 res), 0)
               else (case findById e i of
                       Inl fault \<Rightarrow> (req, json server_error (status 500 res), 0)
                     | Inr None \<Rightarrow> (req, json user_not_found (status 401 res), 0)
                     | Inr (Some u) \<Rightarrow>
                         (req\<lparr>user := Some u, userId := Some (user_oid u)\<rparr>,
                          renewTokenIfNecessary e res decoded,
                          1))))"

subsection \<open>A concrete deployment, for evaluating the definitions\<close>

text \<open>
  A store with one user, a handful of credentials and the instant 1700000000000 ms:
  one credential with the full seven days ahead of it, one 23 h 59 min from expiry, one
  25 h from expiry, one expired, one with a bad signature, one without expiry, one for a
  second subject, one whose subject is no longer in the store, and one, again 23 h 59 min
  from expiry, whose payload has a further member.
\<close>

definition alice :: user_record where
  "alice = \<lparr>user_oid = ''u1'',
            user_fields = [''username'' \<mapsto> ''alice'', ''password'' \<mapsto> ''$2a$08$hash'']\<rparr>"

definition demo_tokens :: "(string \<times> payload \<times> bool) list" where
  "demo_tokens =
     [(''tok.fresh'', \<lparr>jwt_id = Some ''u1'', jwt_iat = Some 1700000000, jwt_exp = Some 1700604800, jwt_other = []\<rparr>, True),
      (''tok.soon'', \<lparr>jwt_id = Some ''u1'', jwt_iat = Some 1699481540, jwt_exp = Some 1700086340, jwt_other = []\<rparr>, True),
      (''tok.25h'', \<lparr>jwt_id = Some ''u1'', jwt_iat = Some 1699485200, jwt_exp = Some 1700090000, jwt_other = []\<rparr>, True),
      (''tok.expired'', \<lparr>jwt_id = Some ''u1'', jwt_iat = Some 1699000000, jwt_exp = Some 1699604800, jwt_other = []\<rparr>, True),
      (''tok.forged'', \<lparr>jwt_id = Some ''u1'', jwt_iat = Some 1700000000, jwt_exp = Some 1700604800, jwt_other = []\<rparr>, False),
      (''tok.noexp'', \<lparr>jwt_id = Some ''u1'', jwt_iat = Some 1600000000, jwt_exp = None, jwt_other = []\<rparr>, True),
      (''tok.bob'', \<lparr>jwt_id = Some ''u2'', jwt_iat = Some 1700000000, jwt_exp = Some 1700604800, jwt_other = []\<rparr>, True),
      (''tok.ghost'', \<lparr>jwt_id = Some ''u9'', jwt_iat = Some 1700000000, jwt_exp = Some 1700604800, jwt_other = []\<rparr>, True),
      (''tok.admin'', \<lparr>jwt_id = Some ''u1'', jwt_iat = Some 1699481540, jwt_exp = Some 1700086340,
                       jwt_other = [(''role'', ''admin'')]\<rparr>, True)]"

definition demo_encode :: "payload \<Rightarrow> string" where
  "demo_encode p =
     (case find (\<lambda>(t, q, ok). q = p \<and> ok) demo_tokens of
        Some (t, q, ok) \<Rightarrow> t
      | None \<Rightarrow> ''tok.unlisted'')"

definition demo_store :: "string \<Rightarrow> store_fault + user_record option" where
  "demo_store i =
     (if i = ''u1'' then Inr (Some alice)
      else if i = ''u2'' then Inl StoreFault
      else Inr None)"

definition demo_env :: "nat \<Rightarrow> env" where
  "demo_env now =
     \<lparr>parse_jwt = map_of demo_tokens, encode_jwt = demo_encode, findById = demo_store,
      production = False, clock_verify = now, clock_renew = now, clock_sign = now\<rparr>"

definition demo_req :: "string option \<Rightarrow> string option \<Rightarrow> request" where
  "demo_req c h =
     \<lparr>cookies = Some (case c of None \<Rightarrow> Map.empty | Some t \<Rightarrow> [''token'' \<mapsto> t]),
      headers = (case h of None \<Rightarrow> Map.empty | Some v \<Rightarrow> [''authorization'' \<mapsto> v]),
      originalUrl = ''/dashboard'', user = None, userId = None\<rparr>"

definition demo_res :: response where
  "demo_res = \<lparr>statusCode = 200, body = None, location = None, setCookies = [],
               locals_user = None\<rparr>"

section \<open>Properties\<close>

subsection \<open>The resolver and the token codec\<close>

lemma cookie_token_present:
  "cookies req = Some cs \<Longrightarrow> cs ''token'' = Some t \<Longrightarrow> t \<noteq> [] \<Longrightarrow> cookie_token req = Some t"
  by (simp add: cookie_token_def)

lemma cookie_token_nonempty: "cookie_token req = Some t \<Longrightarrow> t \<noteq> []"
  by (auto simp: cookie_token_def split: option.splits if_splits)

lemma bearer_token_Bearer:
  "headers req ''authorization'' = Some (''Bearer '' @ b) \<Longrightarrow> bearer_token req = Some b"
  by (simp add: bearer_token_def startsWith_def substring_def)

lemma decodeToken_cookie:
  "cookie_token req = Some t \<Longrightarrow>
   decodeToken e req = (case jwt_verify e t of Inl err \<Rightarrow> None | Inr d \<Rightarrow> Some d)"
  by (frule cookie_token_nonempty) (simp add: decodeToken_def)

lemma decodeToken_bearer:
  "cookie_token req = None \<Longrightarrow> bearer_token req = Some b \<Longrightarrow> b \<noteq> [] \<Longrightarrow>
   decodeToken e req = (case jwt_verify e b of Inl err \<Rightarrow> None | Inr d \<Rightarrow> Some d)"
  by (simp add: decodeToken_def)

lemma decodeToken_absent:
  "cookie_token req = None \<Longrightarrow> bearer_token req = None \<Longrightarrow> decodeToken e req = None"
  by (simp add: decodeToken_def)

lemma decodeToken_verify_fails:
  "cookie_token req = Some t \<or> cookie_token req = None \<and> bearer_token req = Some t \<Longrightarrow>
   jwt_verify e t = Inl err \<Longrightarrow> decodeToken e req = None"
  by (auto simp: decodeToken_def)

lemma jwt_verify_expired:
  "parse_jwt e t = Some (p, ok) \<Longrightarrow> jwt_exp p = Some x \<Longrightarrow> x \<le> int (clock_verify e div 1000) \<Longrightarrow>
   \<exists>err. jwt_verify e t = Inl err"
  by (simp add: jwt_verify_def)

lemma jwt_verify_Inr:
  "jwt_verify e t = Inr p \<Longrightarrow>
   parse_jwt e t = Some (p, True) \<and> (\<forall>x. jwt_exp p = Some x \<longrightarrow> int (clock_verify e div 1000) < x)"
  by (auto simp: jwt_verify_def split: option.splits if_splits prod.splits)

lemma jwt_verify_Inl_iff:
  "(\<exists>err. jwt_verify e t = Inl err) =
   (parse_jwt e t = None
    \<or> (\<exists>p. parse_jwt e t = Some (p, False))
    \<or> (\<exists>p x. parse_jwt e t = Some (p, True) \<and> jwt_exp p = Some x \<and> x \<le> int (clock_verify e div 1000)))"
  by (auto simp: jwt_verify_def split: option.splits if_splits prod.splits)

lemma decodeToken_Some:
  "decodeToken e req = Some p \<Longrightarrow> \<exists>t. t \<noteq> [] \<and> jwt_verify e t = Inr p"
  by (auto simp: decodeToken_def Let_def split: option.splits if_splits sum.splits)

lemma decoded_exp_positive:
  "decodeToken e req = Some p \<Longrightarrow> jwt_exp p = Some x \<Longrightarrow> 0 < x"
  using decodeToken_Some jwt_verify_Inr
  by (metis of_nat_0_le_iff order_le_less_trans)

lemma decodeToken_same_codec:
  assumes "decodeToken e req = Some p" and "parse_jwt e' = parse_jwt e"
    and "\<And>x. jwt_exp p = Some x \<Longrightarrow> int (clock_verify e' div 1000) < x"
  shows "decodeToken e' req = Some p"
proof -
  have v: "jwt_verify e' t = Inr p" if "jwt_verify e t = Inr p" for t
  proof -
    from jwt_verify_Inr [OF that] have "parse_jwt e' t = Some (p, True)"
      by (simp add: assms(2))
    then show ?thesis
      using assms(3) by (auto simp: jwt_verify_def split: option.splits)
  qed
  show ?thesis
    using assms(1) v
    by (auto simp: decodeToken_def Let_def split: option.splits if_splits sum.splits)
qed

lemma token_user_update:
  "cookie_token (req\<lparr>user := v\<rparr>) = cookie_token req"
  "bearer_token (req\<lparr>user := v\<rparr>) = bearer_token req"
  by (simp_all add: cookie_token_def bearer_token_def)

lemma decodeToken_user_update:
  "decodeToken e (req\<lparr>user := v\<rparr>) = decodeToken e req"
  by (simp add: decodeToken_def token_user_update cong: option.case_cong)

subsection \<open>The renewal policy and the response\<close>

lemma renew_cases:
  "jwt_exp p = Some x \<Longrightarrow> x \<noteq> 0 \<Longrightarrow>
   renewTokenIfNecessary e res p =
     (if of_int x - of_nat (clock_renew e) / 1000 < (24 * 60 * 60 :: rat)
      then set_cookie (token_cookie e (jwt_sign e (jwt_id p))) res else res)"
  by (simp add: renewTokenIfNecessary_def Let_def)

lemma set_cookie_neq: "set_cookie c res \<noteq> res"
proof
  assume "set_cookie c res = res"
  then have "setCookies (set_cookie c res) = setCookies res" by simp
  then show False by (simp add: set_cookie_def)
qed

lemma within_day_ms:
  "(of_int x - of_nat n / 1000 < (24 * 60 * 60 :: rat)) = (x * 1000 - int n < 86400000)"
proof -
  have "(of_int x - of_nat n / 1000 < (86400 :: rat)) = ((of_int x * 1000 - of_nat n) / 1000 < (86400 :: rat))"
    by (simp add: field_simps)
  also have "\<dots> = (of_int x * 1000 - of_nat n < (86400000 :: rat))"
    by (simp add: field_simps)
  also have "\<dots> = (of_int (x * 1000 - int n) < (of_int 86400000 :: rat))"
    by simp
  also have "\<dots> = (x * 1000 - int n < 86400000)"
    by (simp only: of_int_less_iff)
  finally show ?thesis by simp
qed

lemma far_from_expiry_unexpired:
  assumes "(24 * 60 * 60 :: rat) < of_int x - of_nat n / 1000"
  shows "int (n div 1000) < x" and "x \<noteq> 0"
proof -
  have "x * 1000 - int n > 86400000"
  proof -
    have "(of_int 86400000 :: rat) < of_int (x * 1000 - int n)"
      using assms by (simp add: field_simps)
    then show ?thesis by (simp only: of_int_less_iff)
  qed
  then have x: "int n < x * 1000" by simp
  have "int (n div 1000) * 1000 \<le> int n"
    by (simp add: zdiv_int)
  with x show "int (n div 1000) < x" by linarith
  from x show "x \<noteq> 0" by auto
qed

lemma renew_far_from_expiry:
  assumes "jwt_exp p = Some x" and "(24 * 60 * 60 :: rat) < of_int x - of_nat (clock_renew e) / 1000"
  shows "renewTokenIfNecessary e res p = res"
  using assms by (simp add: renewTokenIfNecessary_def Let_def)

lemma renew_keeps_rest:
  "statusCode (renewTokenIfNecessary e res p) = statusCode res"
  "body (renewTokenIfNecessary e res p) = body res"
  "location (renewTokenIfNecessary e res p) = location res"
  "locals_user (renewTokenIfNecessary e res p) = locals_user res"
  by (simp_all add: renewTokenIfNecessary_def Let_def set_cookie_def split: option.splits)

subsection \<open>The user record and the encoded path\<close>

lemma select_minus_password_excludes:
  "user_fields (select_minus_password u) ''password'' = None"
  by (simp add: select_minus_password_def)

lemma addUserToRequestAndLocals_excludes_password:
  assumes "decodeToken e req = Some d" and "jwt_id d = Some i" and "i \<noteq> []"
    and "findById e i = Inr (Some u)"
  shows "case addUserToRequestAndLocals e req res of
           (req', res', n) \<Rightarrow>
             user req' = Some (select_minus_password u)
             \<and> locals_user res' = Some (select_minus_password u)"
  using assms by (simp add: addUserToRequestAndLocals_def Let_def renew_keeps_rest)

lemma requireAuthForApi_attaches_stored_document:
  assumes "decodeToken e req = Some d" and "jwt_id d = Some i" and "i \<noteq> []"
    and "findById e i = Inr (Some u)"
  shows "case requireAuthForApi e req res of
           (req', res', n) \<Rightarrow> user req' = Some u \<and> userId req' = Some (user_oid u) \<and> n = 1"
  using assms by (simp add: requireAuthForApi_def)

lemma hexDigit_mem: "hexDigit n \<in> set ''0123456789ABCDEF''"
  unfolding hexDigit_def by (rule nth_mem) simp

lemma encodeURIComponent_chars:
  "c \<in> set (encodeURIComponent s) \<Longrightarrow>
   uriUnreserved c \<or> c = CHR ''%'' \<or> c \<in> set ''0123456789ABCDEF''"
  using hexDigit_mem
  by (auto simp: encodeURIComponent_def pctEncode_def split: if_splits)

lemma encodeURIComponent_no_delimiter:
  "c \<in> set (encodeURIComponent s) \<Longrightarrow> c \<notin> set ''&=?#/+ ''"
  by (drule encodeURIComponent_chars) (auto simp: uriUnreserved_def)

subsection \<open>Evaluation on the concrete deployment\<close>

lemma demo_clock: "clock_renew (demo_env n) = n" "clock_sign (demo_env n) = n"
  "clock_verify (demo_env n) = n" "production (demo_env n) = False"
  "parse_jwt (demo_env n) = map_of demo_tokens" "encode_jwt (demo_env n) = demo_encode"
  "findById (demo_env n) = demo_store"
  by (simp_all add: demo_env_def)

lemma demo_req_sel:
  "cookies (demo_req (Some t) h) = Some [''token'' \<mapsto> t]"
  "headers (demo_req c (Some v)) ''authorization'' = Some v"
  by (simp_all add: demo_req_def)

lemma demo_tokens_of:
  "cookie_token (demo_req None h) = None"
  "cookie_token (demo_req (Some ''tok.forged'') h) = Some ''tok.forged''"
  "bearer_token (demo_req c None) = None"
  "bearer_token (demo_req c (Some ''Bearer not a token'')) = Some ''not a token''"
  by (simp_all add: cookie_token_def bearer_token_def startsWith_def substring_def demo_req_def)

lemma demo_store_eval:
  "demo_store ''u1'' = Inr (Some alice)" "demo_store ''u2'' = Inl StoreFault"
  "demo_store ''u9'' = Inr None"
  by (simp_all add: demo_store_def)

lemma demo_verify:
  "jwt_verify (demo_env 1700000000000) ''tok.fresh'' =
     Inr \<lparr>jwt_id = Some ''u1'', jwt_iat = Some 1700000000, jwt_exp = Some 1700604800, jwt_other = []\<rparr>"
  "jwt_verify (demo_env 1700000000000) ''tok.bob'' =
     Inr \<lparr>jwt_id = Some ''u2'', jwt_iat = Some 1700000000, jwt_exp = Some 1700604800, jwt_other = []\<rparr>"
  "jwt_verify (demo_env 1700000000000) ''tok.expired'' = Inl TokenExpiredError"
  "jwt_verify (demo_env 1700000000000) ''tok.forged'' = Inl JsonWebTokenError"
  "jwt_verify (demo_env 1700000000000) ''not a token'' = Inl JsonWebTokenError"
  "jwt_verify (demo_env 1700000000000) '''' = Inl JsonWebTokenError"
  by (simp_all add: jwt_verify_def demo_env_def demo_tokens_def)

lemma demo_expired_bearer:
  "cookie_token (demo_req None (Some ''Bearer tok.expired'')) = None"
  "headers (demo_req None (Some ''Bearer tok.expired'')) ''authorization'' = Some (''Bearer '' @ ''tok.expired'')"
  "parse_jwt (demo_env 1700000000000) ''tok.expired'' =
     Some (\<lparr>jwt_id = Some ''u1'', jwt_iat = Some 1699000000, jwt_exp = Some 1699604800, jwt_other = []\<rparr>, True)"
  by (simp_all add: cookie_token_def demo_req_def demo_env_def demo_tokens_def)

lemma demo_no_credential:
  "decodeToken (demo_env 1700000000000) (demo_req None None) = None"
  by (simp add: decodeToken_def cookie_token_def bearer_token_def demo_req_def)

lemma demo_ghost:
  "decodeToken (demo_env 1700000000000) (demo_req None (Some ''Bearer tok.ghost'')) =
     Some \<lparr>jwt_id = Some ''u9'', jwt_iat = Some 1700000000, jwt_exp = Some 1700604800, jwt_other = []\<rparr>"
  "findById (demo_env 1700000000000) ''u9'' = Inr None"
  by (simp_all add: decodeToken_def cookie_token_def bearer_token_def startsWith_def substring_def
        jwt_verify_def demo_req_def demo_env_def demo_tokens_def demo_store_def)

lemma demo_decode_fresh:
  "decodeToken (demo_env 1700000000000) (demo_req (Some ''tok.fresh'') None) =
     Some \<lparr>jwt_id = Some ''u1'', jwt_iat = Some 1700000000, jwt_exp = Some 1700604800, jwt_other = []\<rparr>"
  by (simp add: decodeToken_def cookie_token_def demo_req_def demo_verify)

lemma demo_decode_bob:
  "decodeToken (demo_env 1700000000000) (demo_req None (Some ''Bearer tok.bob'')) =
     Some \<lparr>jwt_id = Some ''u2'', jwt_iat = Some 1700000000, jwt_exp = Some 1700604800, jwt_other = []\<rparr>"
  by (simp add: decodeToken_def cookie_token_def bearer_token_def startsWith_def substring_def
        demo_req_def demo_verify)

lemma demo_decode_soon:
  "decodeToken (demo_env 1700000000000) (demo_req (Some ''tok.soon'') None) =
     Some \<lparr>jwt_id = Some ''u1'', jwt_iat = Some 1699481540, jwt_exp = Some 1700086340, jwt_other = []\<rparr>"
  "decodeToken (demo_env 1700000000000) (demo_req (Some ''tok.25h'') None) =
     Some \<lparr>jwt_id = Some ''u1'', jwt_iat = Some 1699485200, jwt_exp = Some 1700090000, jwt_other = []\<rparr>"
  by (simp_all add: decodeToken_def cookie_token_def jwt_verify_def demo_req_def demo_env_def
        demo_tokens_def)

lemma demo_empty_cookie:
  "decodeToken (demo_env 1700000000000) (demo_req (Some '''') (Some ''Bearer tok.bob'')) =
     Some \<lparr>jwt_id = Some ''u2'', jwt_iat = Some 1700000000, jwt_exp = Some 1700604800, jwt_other = []\<rparr>"
  "decodeToken (demo_env 1700000000000) (demo_req (Some '''') (Some ''Bearer tok.fresh'')) =
     Some \<lparr>jwt_id = Some ''u1'', jwt_iat = Some 1700000000, jwt_exp = Some 1700604800, jwt_other = []\<rparr>"
  by (simp_all add: decodeToken_def cookie_token_def bearer_token_def startsWith_def substring_def
        demo_req_def demo_verify)

lemma demo_encode_fresh:
  "demo_encode \<lparr>jwt_id = Some ''u1'', jwt_iat = Some 1700000000, jwt_exp = Some 1700604800, jwt_other = []\<rparr>
     = ''tok.fresh''"
  by (simp add: demo_encode_def demo_tokens_def)

lemma demo_verify_later:
  "jwt_verify (demo_env 1700000060000) ''tok.fresh'' =
     Inr \<lparr>jwt_id = Some ''u1'', jwt_iat = Some 1700000000, jwt_exp = Some 1700604800, jwt_other = []\<rparr>"
  by (simp add: jwt_verify_def demo_env_def demo_tokens_def)

lemma demo_renews_soon:
  "renewTokenIfNecessary (demo_env 1700000000000) demo_res
     \<lparr>jwt_id = Some ''u1'', jwt_iat = Some 1699481540, jwt_exp = Some 1700086340, jwt_other = []\<rparr>
     \<noteq> demo_res"
  by (simp add: renewTokenIfNecessary_def Let_def demo_env_def set_cookie_neq)

lemma demo_sign_u1:
  "jwt_sign (demo_env 1700000000000) (Some ''u1'') = ''tok.fresh''"
  by (simp add: jwt_sign_def demo_env_def demo_encode_def demo_tokens_def)

lemma demo_encode_dashboard: "encodeURIComponent ''/dashboard'' = ''%2Fdashboard''"
  by (simp add: encodeURIComponent_def uriUnreserved_def pctEncode_def hexDigit_def)

section \<open>The claims\<close>

subsection \<open>C1: failures of the API guard\<close>

text \<open>
  Claim C1. For every request to the API guard: when token resolution yields nothing (no
  credential, or one that is malformed, has a bad signature or is expired; in particular a
  well-formed bearer credential whose expiry has passed), the response has status 403 and a
  body with \<open>success = False\<close> and a message; when resolution yields a subject and the store
  has no user record for it, the response has status 401 and such a body. In both cases
  \<^verbatim>\<open>next\<close> is not invoked and the request is left as it was.
\<close>

theorem requireAuthForApi_failures:
  "(decodeToken e req = None \<longrightarrow>
      requireAuthForApi e req res = (req, res\<lparr>statusCode := 403, body := Some auth_failed\<rparr>, 0))
   \<and> (cookie_token req = None \<and> bearer_token req = None \<longrightarrow>
      requireAuthForApi e req res = (req, res\<lparr>statusCode := 403, body := Some auth_failed\<rparr>, 0))
   \<and> ((cookie_token req = Some t \<or> cookie_token req = None \<and> bearer_token req = Some t)
        \<and> jwt_verify e t = Inl err \<longrightarrow>
      requireAuthForApi e req res = (req, res\<lparr>statusCode := 403, body := Some auth_failed\<rparr>, 0))
   \<and> (cookie_token req = None \<and> headers req ''authorization'' = Some (''Bearer '' @ b)
        \<and> parse_jwt e b = Some (p, True) \<and> jwt_exp p = Some x \<and> x \<le> int (clock_verify e div 1000) \<longrightarrow>
      requireAuthForApi e req res = (req, res\<lparr>statusCode := 403, body := Some auth_failed\<rparr>, 0))
   \<and> (decodeToken e req = Some d \<and> jwt_id d = Some i \<and> i \<noteq> [] \<and> findById e i = Inr None \<longrightarrow>
      requireAuthForApi e req res = (req, res\<lparr>statusCode := 401, body := Some user_not_found\<rparr>, 0))
   \<and> success auth_failed = False \<and> success user_not_found = False"
proof -
  have none: "requireAuthForApi e req res = (req, res\<lparr>statusCode := 403, body := Some auth_failed\<rparr>, 0)"
    if "decodeToken e req = None"
    using that by (simp add: requireAuthForApi_def status_def json_def)
  have absent: "decodeToken e req = None"
    if "cookie_token req = None \<and> bearer_token req = None"
    using that by (simp add: decodeToken_absent)
  have fails: "decodeToken e req = None"
    if "cookie_token req = Some t \<or> cookie_token req = None \<and> bearer_token req = Some t"
      and "jwt_verify e t = Inl err"
    using that by (rule decodeToken_verify_fails)
  have expired: "decodeToken e req = None"
    if c: "cookie_token req = None" and h: "headers req ''authorization'' = Some (''Bearer '' @ b)"
      and q: "parse_jwt e b = Some (p, True)" "jwt_exp p = Some x" "x \<le> int (clock_verify e div 1000)"
  proof -
    from jwt_verify_expired [OF q] obtain err' where "jwt_verify e b = Inl err'" ..
    with c bearer_token_Bearer [OF h] show ?thesis
      by (intro decodeToken_verify_fails [of req b e err']) simp_all
  qed
  have missing: "requireAuthForApi e req res = (req, res\<lparr>statusCode := 401, body := Some user_not_found\<rparr>, 0)"
    if "decodeToken e req = Some d" "jwt_id d = Some i" "i \<noteq> []" "findById e i = Inr None"
    using that by (simp add: requireAuthForApi_def status_def json_def)
  show ?thesis
    using none absent fails expired missing by (simp add: auth_failed_def user_not_found_def)
qed

theorem requireAuthForApi_failures_witness:
  "requireAuthForApi (demo_env 1700000000000) (demo_req None None) demo_res =
     (demo_req None None, demo_res\<lparr>statusCode := 403, body := Some auth_failed\<rparr>, 0)
   \<and> requireAuthForApi (demo_env 1700000000000) (demo_req (Some ''tok.forged'') None) demo_res =
     (demo_req (Some ''tok.forged'') None, demo_res\<lparr>statusCode := 403, body := Some auth_failed\<rparr>, 0)
   \<and> requireAuthForApi (demo_env 1700000000000) (demo_req None (Some ''Bearer not a token'')) demo_res =
     (demo_req None (Some ''Bearer not a token''), demo_res\<lparr>statusCode := 403, body := Some auth_failed\<rparr>, 0)
   \<and> requireAuthForApi (demo_env 1700000000000) (demo_req None (Some ''Bearer tok.expired'')) demo_res =
     (demo_req None (Some ''Bearer tok.expired''), demo_res\<lparr>statusCode := 403, body := Some auth_failed\<rparr>, 0)
   \<and> requireAuthForApi (demo_env 1700000000000) (demo_req None (Some ''Bearer tok.ghost'')) demo_res =
     (demo_req None (Some ''Bearer tok.ghost''), demo_res\<lparr>statusCode := 401, body := Some user_not_found\<rparr>, 0)"
  using requireAuthForApi_failures
      [where e = "demo_env 1700000000000" and req = "demo_req None None" and res = demo_res]
    requireAuthForApi_failures
      [where e = "demo_env 1700000000000" and req = "demo_req (Some ''tok.forged'') None"
         and res = demo_res and t = "''tok.forged''" and err = JsonWebTokenError]
    requireAuthForApi_failures
      [where e = "demo_env 1700000000000" and req = "demo_req None (Some ''Bearer not a token'')"
         and res = demo_res and t = "''not a token''" and err = JsonWebTokenError]
    requireAuthForApi_failures
      [where e = "demo_env 1700000000000" and req = "demo_req None (Some ''Bearer tok.expired'')"
         and res = demo_res and b = "''tok.expired''" and x = 1699604800
         and p = "\<lparr>jwt_id = Some ''u1'', jwt_iat = Some 1699000000, jwt_exp = Some 1699604800, jwt_other = []\<rparr>"]
    requireAuthForApi_failures
      [where e = "demo_env 1700000000000" and req = "demo_req None (Some ''Bearer tok.ghost'')"
         and res = demo_res and i = "''u9''"
         and d = "\<lparr>jwt_id = Some ''u9'', jwt_iat = Some 1700000000, jwt_exp = Some 1700604800, jwt_other = []\<rparr>"]
    demo_tokens_of demo_verify demo_expired_bearer demo_ghost
  by (simp add: demo_clock)

subsection \<open>C2: the attached user record and the password field\<close>

text \<open>
  Claim C2. The user record attached to the request excludes the password field, in the
  global middleware and in the API guard. The global middleware does so; the API guard
  looks the user up without \<^verbatim>\<open>select('-password')\<close> and attaches the stored document as
  it is: for a valid credential of a user whose document has a password field, the record
  the API guard attaches carries that field, while the one the global middleware attaches
  to the same request does not.
\<close>

theorem requireAuthForApi_attaches_password:
  "(case requireAuthForApi (demo_env 1700000000000) (demo_req (Some ''tok.fresh'') None) demo_res of
      (req', res', n) \<Rightarrow>
        map_option (\<lambda>u. user_fields u ''password'') (user req') = Some (Some ''$2a$08$hash'')
        \<and> n = 1)
   \<and> (case addUserToRequestAndLocals (demo_env 1700000000000) (demo_req (Some ''tok.fresh'') None) demo_res of
      (req', res', n) \<Rightarrow>
        map_option (\<lambda>u. user_fields u ''password'') (user req') = Some None \<and> n = 1)"
proof -
  have 1: "requireAuthForApi (demo_env 1700000000000) (demo_req (Some ''tok.fresh'') None) demo_res
      = ((demo_req (Some ''tok.fresh'') None)\<lparr>user := Some alice, userId := Some ''u1''\<rparr>, demo_res, 1)"
    by (simp add: requireAuthForApi_def demo_decode_fresh demo_clock demo_store_eval
          renewTokenIfNecessary_def Let_def alice_def)
  have 2: "addUserToRequestAndLocals (demo_env 1700000000000) (demo_req (Some ''tok.fresh'') None) demo_res
      = ((demo_req (Some ''tok.fresh'') None)\<lparr>user := Some (select_minus_password alice)\<rparr>,
         demo_res\<lparr>locals_user := Some (select_minus_password alice)\<rparr>, 1)"
    by (simp add: addUserToRequestAndLocals_def demo_decode_fresh demo_clock demo_store_eval
          renewTokenIfNecessary_def Let_def)
  show ?thesis
    by (simp add: 1 2 select_minus_password_excludes) (simp add: alice_def)
qed

subsection \<open>C3: the cookie takes precedence over the header\<close>

text \<open>
  Claim C3, amended. For every request carrying both a non-empty token cookie and an
  \<^verbatim>\<open>Authorization\<close> header with scheme \<^verbatim>\<open>Bearer\<close>, the resolver verifies the cookie's
  credential and ignores the header: its result is that of verifying the cookie, it is the
  same whatever the headers are, and when the two credentials name different subjects it
  yields the cookie's subject.
\<close>

theorem decodeToken_prefers_cookie:
  assumes "cookies req = Some cs" and "cs ''token'' = Some t" and "t \<noteq> []"
    and "headers req ''authorization'' = Some (''Bearer '' @ b)"
  shows "decodeToken e req = (case jwt_verify e t of Inl err \<Rightarrow> None | Inr d \<Rightarrow> Some d)
    \<and> decodeToken e (req\<lparr>headers := hs\<rparr>) = decodeToken e req
    \<and> (jwt_verify e t = Inr d \<and> jwt_verify e b = Inr d' \<and> jwt_id d \<noteq> jwt_id d' \<longrightarrow>
          decodeToken e req = Some d \<and> map_option jwt_id (decodeToken e req) \<noteq> Some (jwt_id d'))"
proof -
  have c: "cookie_token req = Some t"
    using assms(1-3) by (rule cookie_token_present)
  have c': "cookie_token (req\<lparr>headers := hs\<rparr>) = Some t"
    using assms(1-3) by (simp add: cookie_token_def)
  show ?thesis
    by (simp add: decodeToken_cookie [OF c] decodeToken_cookie [OF c'])
qed

theorem decodeToken_prefers_cookie_witness:
  "decodeToken (demo_env 1700000000000) (demo_req (Some ''tok.fresh'') (Some ''Bearer tok.bob'')) =
     Some \<lparr>jwt_id = Some ''u1'', jwt_iat = Some 1700000000, jwt_exp = Some 1700604800, jwt_other = []\<rparr>
   \<and> jwt_verify (demo_env 1700000000000) ''tok.bob'' =
     Inr \<lparr>jwt_id = Some ''u2'', jwt_iat = Some 1700000000, jwt_exp = Some 1700604800, jwt_other = []\<rparr>"
  using decodeToken_prefers_cookie [of "demo_req (Some ''tok.fresh'') (Some ''Bearer tok.bob'')"
      "[''token'' \<mapsto> ''tok.fresh'']" "''tok.fresh''" "''tok.bob''" "demo_env 1700000000000"]
    demo_verify(1,2) demo_req_sel
  by simp

text \<open>
  As stated, for every request carrying a token cookie, the claim fails: the source tests
  \<^verbatim>\<open>req.cookies.token\<close> for truthiness, so a token cookie with the empty value counts as
  absent and the bearer header decides the result.
\<close>

theorem decodeToken_cookie_precedence_counterexample:
  "cookies (demo_req (Some '''') (Some ''Bearer tok.bob'')) = Some [''token'' \<mapsto> '''']
   \<and> headers (demo_req (Some '''') (Some ''Bearer tok.bob'')) ''authorization'' = Some ''Bearer tok.bob''
   \<and> decodeToken (demo_env 1700000000000) (demo_req (Some '''') (Some ''Bearer tok.bob''))
       \<noteq> (case jwt_verify (demo_env 1700000000000) '''' of Inl err \<Rightarrow> None | Inr d \<Rightarrow> Some d)
   \<and> decodeToken (demo_env 1700000000000) (demo_req (Some '''') (Some ''Bearer tok.bob''))
       \<noteq> decodeToken (demo_env 1700000000000) (demo_req (Some '''') (Some ''Bearer tok.fresh''))"
  by (simp add: demo_req_sel demo_empty_cookie demo_verify)

subsection \<open>C4: the global middleware always continues\<close>

text \<open>
  Claim C4. For every request, the global context middleware invokes \<^verbatim>\<open>next\<close> exactly once
  and writes no error response (status, body and redirect target of the response stay as
  they were); when the user-store lookup for the resolved subject fails, by a fault or by
  finding nothing, the failure is swallowed: neither the request nor the response (and so
  neither \<^verbatim>\<open>req.user\<close> nor \<^verbatim>\<open>res.locals.user\<close>) is changed.
\<close>

theorem addUserToRequestAndLocals_always_continues:
  "(case addUserToRequestAndLocals e req res of
      (req', res', n) \<Rightarrow>
        n = 1 \<and> statusCode res' = statusCode res \<and> body res' = body res
        \<and> location res' = location res)
   \<and> (decodeToken e req = Some d \<and> jwt_id d = Some i
        \<and> (findById e i = Inl fault \<or> findById e i = Inr None) \<longrightarrow>
        addUserToRequestAndLocals e req res = (req, res, 1))"
proof -
  have 1: "case addUserToRequestAndLocals e req res of
      (req', res', n) \<Rightarrow>
        n = 1 \<and> statusCode res' = statusCode res \<and> body res' = body res
        \<and> location res' = location res"
    by (simp add: addUserToRequestAndLocals_def Let_def renew_keeps_rest
          split: option.splits sum.splits)
  have 2: "addUserToRequestAndLocals e req res = (req, res, 1)"
    if "decodeToken e req = Some d" "jwt_id d = Some i"
      "findById e i = Inl fault \<or> findById e i = Inr None"
    using that by (auto simp: addUserToRequestAndLocals_def)
  from 1 2 show ?thesis by blast
qed

theorem addUserToRequestAndLocals_always_continues_witness:
  "addUserToRequestAndLocals (demo_env 1700000000000) (demo_req None (Some ''Bearer tok.bob'')) demo_res
     = (demo_req None (Some ''Bearer tok.bob''), demo_res, 1)
   \<and> addUserToRequestAndLocals (demo_env 1700000000000) (demo_req None (Some ''Bearer tok.ghost'')) demo_res
     = (demo_req None (Some ''Bearer tok.ghost''), demo_res, 1)"
  using addUserToRequestAndLocals_always_continues
      [where e = "demo_env 1700000000000" and req = "demo_req None (Some ''Bearer tok.bob'')"
         and res = demo_res and i = "''u2''" and fault = StoreFault
         and d = "\<lparr>jwt_id = Some ''u2'', jwt_iat = Some 1700000000, jwt_exp = Some 1700604800, jwt_other = []\<rparr>"]
    addUserToRequestAndLocals_always_continues
      [where e = "demo_env 1700000000000" and req = "demo_req None (Some ''Bearer tok.ghost'')"
         and res = demo_res and i = "''u9''" and fault = StoreFault
         and d = "\<lparr>jwt_id = Some ''u9'', jwt_iat = Some 1700000000, jwt_exp = Some 1700604800, jwt_other = []\<rparr>"]
    demo_decode_bob demo_ghost(1)
  by (simp add: demo_clock demo_store_eval)

subsection \<open>C5: renewal within 24 hours of expiry\<close>

text \<open>
  Claim C5. For every decoded payload with an expiry field, the renewal policy issues a
  replacement credential and writes it to the token cookie if and only if expiry minus the
  current time is strictly less than 24 hours: in that case the response gains exactly one
  cookie, named \<^verbatim>\<open>token\<close>, whose value is the credential signed for the same subject with
  a fresh seven-day window and whose flags are those of the source; otherwise the response
  is left as it was. In particular the policy renews at 23 h 59 min and does not at 25 h.
\<close>

theorem renewal_iff_within_24h:
  assumes "decodeToken e req = Some p" and "jwt_exp p = Some x"
  shows "(let iat = int (clock_sign e div 1000);
              newToken = encode_jwt e \<lparr>jwt_id = jwt_id p, jwt_iat = Some iat,
                                       jwt_exp = Some (iat + 604800), jwt_other = []\<rparr>;
              renewed = res\<lparr>setCookies := setCookies res @
                          [\<lparr>cookie_name = ''token'', cookie_value = newToken,
                            httpOnly = True, secure = production e, maxAge = 604800000,
                            sameSite = ''lax'', cookie_path = ''/''\<rparr>]\<rparr>;
              remaining = of_int x - of_nat (clock_renew e) / (1000 :: rat)
          in (renewTokenIfNecessary e res p \<noteq> res) = (remaining < 24 * 60 * 60)
             \<and> (remaining < 24 * 60 * 60 \<longrightarrow> renewTokenIfNecessary e res p = renewed)
             \<and> (\<not> remaining < 24 * 60 * 60 \<longrightarrow> renewTokenIfNecessary e res p = res)
             \<and> (remaining = 23 * 60 * 60 + 59 * 60 \<longrightarrow> renewTokenIfNecessary e res p = renewed)
             \<and> (remaining = 25 * 60 * 60 \<longrightarrow> renewTokenIfNecessary e res p = res))"
proof -
  have "x \<noteq> 0"
    using decoded_exp_positive [OF assms] by simp
  then show ?thesis
    by (simp add: renew_cases [OF assms(2)] set_cookie_neq Let_def)
       (simp add: set_cookie_def token_cookie_def jwt_sign_def Let_def)
qed

theorem renewal_iff_within_24h_witness:
  "renewTokenIfNecessary (demo_env 1700000000000) demo_res
     \<lparr>jwt_id = Some ''u1'', jwt_iat = Some 1699481540, jwt_exp = Some 1700086340, jwt_other = []\<rparr> =
     demo_res\<lparr>setCookies :=
       [\<lparr>cookie_name = ''token'', cookie_value = ''tok.fresh'',
         httpOnly = True, secure = False, maxAge = 604800000,
         sameSite = ''lax'', cookie_path = ''/''\<rparr>]\<rparr>
   \<and> renewTokenIfNecessary (demo_env 1700000000000) demo_res
     \<lparr>jwt_id = Some ''u1'', jwt_iat = Some 1699485200, jwt_exp = Some 1700090000, jwt_other = []\<rparr> = demo_res"
  using renewal_iff_within_24h [OF demo_decode_soon(1), of 1700086340 demo_res]
    renewal_iff_within_24h [OF demo_decode_soon(2), of 1700090000 demo_res]
  by (simp add: demo_clock demo_encode_fresh Let_def demo_res_def)

subsection \<open>C6: renewal keeps the subject\<close>

text \<open>
  Claim C6, amended. For every decoded payload, when the renewal policy issues a replacement
  credential, the cookie it writes holds the encoding of a payload with the subject
  identifier of the original, a fresh issued-at, an expiry seven days after it and no other
  member; every verification of the written value that succeeds, under a codec that reads
  that encoding back, yields the original subject; and for a payload that holds nothing
  besides \<^verbatim>\<open>id\<close>, \<^verbatim>\<open>iat\<close> and \<^verbatim>\<open>exp\<close> the written value is the encoding of the original
  with only its issued-at and expiry changed.
\<close>

theorem renewal_keeps_subject:
  assumes "renewTokenIfNecessary e res p \<noteq> res"
  shows "(let iat = int (clock_sign e div 1000);
              q = \<lparr>jwt_id = jwt_id p, jwt_iat = Some iat, jwt_exp = Some (iat + 604800),
                   jwt_other = []\<rparr>;
              written = cookie_value (last (setCookies (renewTokenIfNecessary e res p)))
          in renewTokenIfNecessary e res p =
               res\<lparr>setCookies := setCookies res @
                     [\<lparr>cookie_name = ''token'', cookie_value = encode_jwt e q,
                       httpOnly = True, secure = production e, maxAge = 604800000,
                       sameSite = ''lax'', cookie_path = ''/''\<rparr>]\<rparr>
             \<and> (\<forall>e' d. parse_jwt e' (encode_jwt e q) = Some (q, True)
                        \<and> jwt_verify e' written = Inr d \<longrightarrow>
                      jwt_id d = jwt_id p \<and> jwt_iat d = Some iat
                      \<and> jwt_exp d = Some (iat + 604800) \<and> jwt_other d = [])
             \<and> (jwt_other p = [] \<longrightarrow>
                  written = encode_jwt e (p\<lparr>jwt_iat := Some iat, jwt_exp := Some (iat + 604800)\<rparr>)))"
proof -
  define iat where "iat = int (clock_sign e div 1000)"
  define q where "q = \<lparr>jwt_id = jwt_id p, jwt_iat = Some iat, jwt_exp = Some (iat + 604800),
                        jwt_other = []\<rparr>"
  define written where "written = cookie_value (last (setCookies (renewTokenIfNecessary e res p)))"
  have "renewTokenIfNecessary e res p = set_cookie (token_cookie e (jwt_sign e (jwt_id p))) res"
    using assms by (auto simp: renewTokenIfNecessary_def Let_def split: option.splits if_splits)
  then have 1: "renewTokenIfNecessary e res p =
               res\<lparr>setCookies := setCookies res @
                     [\<lparr>cookie_name = ''token'', cookie_value = encode_jwt e q,
                       httpOnly = True, secure = production e, maxAge = 604800000,
                       sameSite = ''lax'', cookie_path = ''/''\<rparr>]\<rparr>"
    by (simp add: set_cookie_def token_cookie_def jwt_sign_def Let_def q_def iat_def)
  then have w: "written = encode_jwt e q"
    by (simp add: written_def)
  have 2: "jwt_id d = jwt_id p \<and> jwt_iat d = Some iat
           \<and> jwt_exp d = Some (iat + 604800) \<and> jwt_other d = []"
    if "parse_jwt e' (encode_jwt e q) = Some (q, True) \<and> jwt_verify e' written = Inr d" for e' d
  proof -
    from that have "jwt_verify e' (encode_jwt e q) = Inr d" by (simp add: w)
    from jwt_verify_Inr [OF this] that have "d = q" by simp
    then show ?thesis by (simp add: q_def)
  qed
  have 3: "written = encode_jwt e (p\<lparr>jwt_iat := Some iat, jwt_exp := Some (iat + 604800)\<rparr>)"
    if "jwt_other p = []"
  proof -
    have "p\<lparr>jwt_iat := Some iat, jwt_exp := Some (iat + 604800)\<rparr> = q"
      using that by (simp add: q_def)
    then show ?thesis by (simp add: w)
  qed
  from 1 2 3 show ?thesis
    unfolding Let_def iat_def [symmetric] q_def [symmetric] written_def [symmetric] by blast
qed

theorem renewal_keeps_subject_witness:
  "renewTokenIfNecessary (demo_env 1700000000000) demo_res
     \<lparr>jwt_id = Some ''u1'', jwt_iat = Some 1699481540, jwt_exp = Some 1700086340, jwt_other = []\<rparr> =
     demo_res\<lparr>setCookies :=
       [\<lparr>cookie_name = ''token'', cookie_value = ''tok.fresh'',
         httpOnly = True, secure = False, maxAge = 604800000,
         sameSite = ''lax'', cookie_path = ''/''\<rparr>]\<rparr>
   \<and> jwt_verify (demo_env 1700000060000) ''tok.fresh'' =
       Inr \<lparr>jwt_id = Some ''u1'', jwt_iat = Some 1700000000, jwt_exp = Some 1700604800, jwt_other = []\<rparr>
   \<and> ''tok.fresh'' =
       demo_encode (\<lparr>jwt_id = Some ''u1'', jwt_iat = Some 1699481540, jwt_exp = Some 1700086340,
                      jwt_other = []\<rparr>\<lparr>jwt_iat := Some 1700000000, jwt_exp := Some 1700604800\<rparr>)"
  using renewal_keeps_subject [OF demo_renews_soon]
    demo_renews_soon demo_verify_later
  by (simp add: Let_def demo_clock demo_encode_fresh demo_res_def)

text \<open>
  As stated, with renewal changing only the issued-at and expiry fields of every decoded
  payload, the claim fails: the source signs the fresh payload \<^verbatim>\<open>{ id: decoded.id }\<close>, so a
  further member of the original payload is not carried into the replacement.
\<close>

theorem renewal_drops_other_members_counterexample:
  "decodeToken (demo_env 1700000000000) (demo_req (Some ''tok.admin'') None) =
     Some \<lparr>jwt_id = Some ''u1'', jwt_iat = Some 1699481540, jwt_exp = Some 1700086340,
           jwt_other = [(''role'', ''admin'')]\<rparr>
   \<and> renewTokenIfNecessary (demo_env 1700000000000) demo_res
       \<lparr>jwt_id = Some ''u1'', jwt_iat = Some 1699481540, jwt_exp = Some 1700086340,
        jwt_other = [(''role'', ''admin'')]\<rparr> \<noteq> demo_res
   \<and> jwt_verify (demo_env 1700000060000)
       (cookie_value (last (setCookies (renewTokenIfNecessary (demo_env 1700000000000) demo_res
          \<lparr>jwt_id = Some ''u1'', jwt_iat = Some 1699481540, jwt_exp = Some 1700086340,
           jwt_other = [(''role'', ''admin'')]\<rparr>)))) =
       Inr \<lparr>jwt_id = Some ''u1'', jwt_iat = Some 1700000000, jwt_exp = Some 1700604800, jwt_other = []\<rparr>
   \<and> \<lparr>jwt_id = Some ''u1'', jwt_iat = Some 1700000000, jwt_exp = Some 1700604800, jwt_other = []\<rparr>
       \<noteq> \<lparr>jwt_id = Some ''u1'', jwt_iat = Some 1699481540, jwt_exp = Some 1700086340,
           jwt_other = [(''role'', ''admin'')]\<rparr>\<lparr>jwt_iat := Some 1700000000, jwt_exp := Some 1700604800\<rparr>"
proof -
  have d: "decodeToken (demo_env 1700000000000) (demo_req (Some ''tok.admin'') None) =
     Some \<lparr>jwt_id = Some ''u1'', jwt_iat = Some 1699481540, jwt_exp = Some 1700086340,
           jwt_other = [(''role'', ''admin'')]\<rparr>"
    by (simp add: decodeToken_def cookie_token_def jwt_verify_def demo_req_def demo_env_def
          demo_tokens_def)
  have r: "renewTokenIfNecessary (demo_env 1700000000000) demo_res
       \<lparr>jwt_id = Some ''u1'', jwt_iat = Some 1699481540, jwt_exp = Some 1700086340,
        jwt_other = [(''role'', ''admin'')]\<rparr> =
       set_cookie (token_cookie (demo_env 1700000000000) ''tok.fresh'') demo_res"
    by (simp add: renewTokenIfNecessary_def Let_def demo_clock demo_sign_u1)
  have v: "cookie_value (last (setCookies
             (set_cookie (token_cookie (demo_env 1700000000000) ''tok.fresh'') demo_res))) = ''tok.fresh''"
    by (simp add: set_cookie_def token_cookie_def)
  show ?thesis
    by (simp add: d r v set_cookie_neq demo_verify_later)
qed

subsection \<open>C7: no renewal without an expiry\<close>

text \<open>
  Claim C7. For every decoded payload lacking an expiry field, the renewal policy issues no
  replacement credential and writes no cookie, whatever the current time: the response is
  left as it was.
\<close>

theorem renewal_never_without_expiry:
  "jwt_exp p = None \<Longrightarrow> renewTokenIfNecessary e res p = res"
  by (simp add: renewTokenIfNecessary_def)

theorem renewal_never_without_expiry_witness:
  "jwt_exp \<lparr>jwt_id = Some ''u1'', jwt_iat = Some 1600000000, jwt_exp = None, jwt_other = []\<rparr> = None
   \<and> renewTokenIfNecessary (demo_env 1700000000000) demo_res
       \<lparr>jwt_id = Some ''u1'', jwt_iat = Some 1600000000, jwt_exp = None, jwt_other = []\<rparr> = demo_res"
  using renewal_never_without_expiry
    [of "\<lparr>jwt_id = Some ''u1'', jwt_iat = Some 1600000000, jwt_exp = None, jwt_other = []\<rparr>"
        "demo_env 1700000000000" demo_res]
  by simp

subsection \<open>C8: the page guard\<close>

text \<open>
  Claim C8. For every request reaching the page guard: when a user record is attached, the
  guard invokes \<^verbatim>\<open>next\<close> and leaves the response as it was; otherwise it invokes nothing
  further and answers with a 302 redirect to \<^verbatim>\<open>/login\<close> whose \<^verbatim>\<open>redirect\<close> query
  parameter is the URL-encoded original path (in which no query delimiter survives) and
  whose \<^verbatim>\<open>error\<close> parameter is a readable reason.
\<close>

theorem requireAuthForPage_contract:
  "(user req = Some u \<longrightarrow> requireAuthForPage req res = (req, res, 1))
   \<and> (user req = None \<longrightarrow>
        requireAuthForPage req res =
          (req,
           res\<lparr>statusCode := 302,
               location := Some (''/login?redirect='' @ encodeURIComponent (originalUrl req)
                                 @ ''&error=Please+log+in+to+view+this+page'')\<rparr>,
           0)
        \<and> (\<forall>c \<in> set (encodeURIComponent (originalUrl req)). c \<notin> set ''&=?#/+ ''))"
  using encodeURIComponent_no_delimiter
  by (auto simp: requireAuthForPage_def redirect_def)

theorem requireAuthForPage_contract_witness:
  "requireAuthForPage (demo_req None None) demo_res =
     (demo_req None None,
      demo_res\<lparr>statusCode := 302,
        location := Some ''/login?redirect=%2Fdashboard&error=Please+log+in+to+view+this+page''\<rparr>,
      0)
   \<and> requireAuthForPage ((demo_req None None)\<lparr>user := Some alice\<rparr>) demo_res =
     ((demo_req None None)\<lparr>user := Some alice\<rparr>, demo_res, 1)"
  using requireAuthForPage_contract [of "demo_req None None" alice demo_res]
    requireAuthForPage_contract [of "(demo_req None None)\<lparr>user := Some alice\<rparr>" alice demo_res]
  by (simp add: demo_req_def demo_encode_dashboard)

subsection \<open>C9: resolving the same credential twice\<close>

text \<open>
  Claim C9. For every credential that the resolver accepts and whose expiry is more than 24
  hours away at every clock reading involved, a second resolution of the same request, at
  any such instant and against the same codec and store, yields the same payload and the
  same session context as the first, and neither resolution writes a renewal cookie; run
  again on its own output, the global middleware changes nothing.
\<close>

theorem resolving_twice_is_idempotent:
  assumes "decodeToken e req = Some p" and "jwt_exp p = Some x"
    and "(24 * 60 * 60 :: rat) < of_int x - of_nat (clock_renew e) / 1000"
    and "parse_jwt e' = parse_jwt e" and "findById e' = findById e"
    and "(24 * 60 * 60 :: rat) < of_int x - of_nat (clock_verify e') / 1000"
    and "(24 * 60 * 60 :: rat) < of_int x - of_nat (clock_renew e') / 1000"
  shows "decodeToken e' req = decodeToken e req
    \<and> renewTokenIfNecessary e res p = res \<and> renewTokenIfNecessary e' res p = res
    \<and> addUserToRequestAndLocals e' req res = addUserToRequestAndLocals e req res
    \<and> (case addUserToRequestAndLocals e req res of
          (req1, res1, n) \<Rightarrow>
            setCookies res1 = setCookies res
            \<and> addUserToRequestAndLocals e' req1 res1 = (req1, res1, 1))"
proof -
  have d': "decodeToken e' req = Some p"
    using assms(1,4) far_from_expiry_unexpired(1) [OF assms(6)] assms(2)
    by (intro decodeToken_same_codec [of e req p e']) auto
  have r: "renewTokenIfNecessary e r p = r" for r
    using assms(2,3) by (rule renew_far_from_expiry)
  have r': "renewTokenIfNecessary e' r p = r" for r
    using assms(2,7) by (rule renew_far_from_expiry)
  have same: "addUserToRequestAndLocals e' req res = addUserToRequestAndLocals e req res"
    by (simp add: addUserToRequestAndLocals_def assms(1) d' assms(5) r r' Let_def
          split: option.splits sum.splits)
  have again: "case addUserToRequestAndLocals e req res of
          (req1, res1, n) \<Rightarrow>
            setCookies res1 = setCookies res
            \<and> addUserToRequestAndLocals e' req1 res1 = (req1, res1, 1)"
    by (simp add: addUserToRequestAndLocals_def assms(1) d' assms(5) r r' Let_def
          decodeToken_user_update split: option.splits sum.splits)
  from d' assms(1) r r' same again show ?thesis by simp
qed

theorem resolving_twice_is_idempotent_witness:
  "addUserToRequestAndLocals (demo_env 1700000001000) (demo_req (Some ''tok.fresh'') None) demo_res =
     addUserToRequestAndLocals (demo_env 1700000000000) (demo_req (Some ''tok.fresh'') None) demo_res
   \<and> decodeToken (demo_env 1700000001000) (demo_req (Some ''tok.fresh'') None) =
       Some \<lparr>jwt_id = Some ''u1'', jwt_iat = Some 1700000000, jwt_exp = Some 1700604800, jwt_other = []\<rparr>
   \<and> renewTokenIfNecessary (demo_env 1700000001000) demo_res
       \<lparr>jwt_id = Some ''u1'', jwt_iat = Some 1700000000, jwt_exp = Some 1700604800, jwt_other = []\<rparr> = demo_res"
  using resolving_twice_is_idempotent [OF demo_decode_fresh, of 1700604800 "demo_env 1700000001000" demo_res]
  by (simp add: demo_clock demo_decode_fresh)

subsection \<open>C10: no fallback from an invalid cookie\<close>

text \<open>
  Claim C10, amended. For every request whose token cookie is present with a non-empty value
  that fails verification (malformed, bad signature or expired), the resolver yields nothing
  even when the request also carries a valid bearer credential, one that the resolver
  accepts once the cookie is removed: there is no fallback from an invalid cookie to the
  header.
\<close>

theorem decodeToken_no_fallback:
  assumes "cookies req = Some cs" and "cs ''token'' = Some t" and "t \<noteq> []"
    and "jwt_verify e t = Inl err"
    and "headers req ''authorization'' = Some (''Bearer '' @ b)" and "b \<noteq> []"
    and "jwt_verify e b = Inr d"
  shows "decodeToken e req = None \<and> decodeToken e (req\<lparr>cookies := None\<rparr>) = Some d"
proof -
  have c: "cookie_token req = Some t"
    using assms(1-3) by (rule cookie_token_present)
  have n: "cookie_token (req\<lparr>cookies := None\<rparr>) = None"
    by (simp add: cookie_token_def)
  have h: "bearer_token (req\<lparr>cookies := None\<rparr>) = Some b"
    using assms(5) by (simp add: bearer_token_def startsWith_def substring_def)
  show ?thesis
    using assms(4,7)
    by (simp add: decodeToken_cookie [OF c] decodeToken_bearer [OF n h assms(6)])
qed

theorem decodeToken_no_fallback_witness:
  "decodeToken (demo_env 1700000000000) (demo_req (Some ''tok.expired'') (Some ''Bearer tok.fresh'')) = None
   \<and> decodeToken (demo_env 1700000000000) (demo_req (Some ''tok.forged'') (Some ''Bearer tok.fresh'')) = None
   \<and> decodeToken (demo_env 1700000000000) (demo_req (Some ''not a token'') (Some ''Bearer tok.fresh'')) = None
   \<and> decodeToken (demo_env 1700000000000)
        ((demo_req (Some ''tok.expired'') (Some ''Bearer tok.fresh''))\<lparr>cookies := None\<rparr>) =
      Some \<lparr>jwt_id = Some ''u1'', jwt_iat = Some 1700000000, jwt_exp = Some 1700604800, jwt_other = []\<rparr>"
  using decodeToken_no_fallback [of "demo_req (Some ''tok.expired'') (Some ''Bearer tok.fresh'')"
      "[''token'' \<mapsto> ''tok.expired'']" "''tok.expired''" "demo_env 1700000000000" TokenExpiredError "''tok.fresh''"]
    decodeToken_no_fallback [of "demo_req (Some ''tok.forged'') (Some ''Bearer tok.fresh'')"
      "[''token'' \<mapsto> ''tok.forged'']" "''tok.forged''" "demo_env 1700000000000" JsonWebTokenError "''tok.fresh''"]
    decodeToken_no_fallback [of "demo_req (Some ''not a token'') (Some ''Bearer tok.fresh'')"
      "[''token'' \<mapsto> ''not a token'']" "''not a token''" "demo_env 1700000000000" JsonWebTokenError "''tok.fresh''"]
    demo_verify demo_req_sel
  by simp

text \<open>
  As stated, with cookie presence alone deciding the source, the claim fails: a token cookie
  with the empty value is present and is no valid credential, yet the resolver falls back to
  the bearer header.
\<close>

theorem decodeToken_fallback_counterexample:
  "cookies (demo_req (Some '''') (Some ''Bearer tok.fresh'')) = Some [''token'' \<mapsto> '''']
   \<and> jwt_verify (demo_env 1700000000000) '''' = Inl JsonWebTokenError
   \<and> headers (demo_req (Some '''') (Some ''Bearer tok.fresh'')) ''authorization'' = Some ''Bearer tok.fresh''
   \<and> decodeToken (demo_env 1700000000000) (demo_req (Some '''') (Some ''Bearer tok.fresh'')) \<noteq> None"
  by (simp add: demo_req_sel demo_empty_cookie demo_verify)

end
